theory Spec2Isabelle
  imports Main
begin

section \<open>JavaScript values, promises and errors\<close>

text \<open>
  The DSL is JavaScript. The values that flow through the wait engine are the results of
  conditions (booleans, but any value is accepted and judged by its truthiness), optional
  arguments that a caller may leave out (\<open>undefined\<close>), and texts. Numbers are integers
  here: \<open>NaN\<close> only arises from \<open>parseInt\<close> and is kept apart as \<open>None\<close> there.
\<close>

datatype jsval = JUndefined | JNull | JBool bool | JNum int | JStr string

fun truthy :: "jsval \<Rightarrow> bool" where
  "truthy JUndefined = False"
| "truthy JNull = False"
| "truthy (JBool b) = b"
| "truthy (JNum n) = (n \<noteq> 0)"
| "truthy (JStr s) = (s \<noteq> [])"

text \<open>Decimal rendering of numbers, as a template literal renders them.\<close>

definition digit_char :: "nat \<Rightarrow> char" where
  "digit_char d = ''0123456789'' ! (d mod 10)"

function show_nat :: "nat \<Rightarrow> string" where
  "show_nat n = (if n < 10 then [digit_char n] else show_nat (n div 10) @ [digit_char (n mod 10)])"
  by pat_completeness auto
termination
  by (relation "measure id") auto

declare show_nat.simps [simp del]

definition show_int :: "int \<Rightarrow> string" where
  "show_int i = (if i < 0 then CHR ''-'' # show_nat (nat (- i)) else show_nat (nat i))"

text \<open>\<open>`${v}`\<close>: the string a template literal puts in place of a value.\<close>

fun to_string :: "jsval \<Rightarrow> string" where
  "to_string JUndefined = ''undefined''"
| "to_string JNull = ''null''"
| "to_string (JBool b) = (if b then ''true'' else ''false'')"
| "to_string (JNum n) = show_int n"
| "to_string (JStr s) = s"

text \<open>
  \<open>global.defaultExpectationTimeout\<close> is documented as a number of milliseconds that may
  be left undefined: \<open>None\<close> is \<open>undefined\<close>. A number is truthy unless it is zero.
\<close>

fun truthy_num :: "int option \<Rightarrow> bool" where
  "truthy_num None = False"
| "truthy_num (Some n) = (n \<noteq> 0)"

text \<open>\<open>a || b\<close> on optional numbers.\<close>

definition js_or :: "int option \<Rightarrow> int option \<Rightarrow> int option" where
  "js_or a b = (if truthy_num a then a else b)"

section \<open>The page under test\<close>

text \<open>
  The automation client is an external collaborator that locates elements and reads their
  state. An element carries what the conditions of the DSL look at.
\<close>

record element =
  displayed :: bool
  enabled :: bool
  selected :: bool
  innerText :: string
  attributes :: "string \<rightharpoonup> string"

text \<open>A snapshot of the DOM: the elements a CSS selector matches, in document order.\<close>

type_synonym dom = "string \<Rightarrow> element list"

text \<open>
  \<open>By.css(selector)\<close>. The argument is \<open>None\<close> when the caller passed \<open>undefined\<close>;
  such a locator matches nothing.
\<close>

datatype locator = ByCss "string option"

fun locator_toString :: "locator \<Rightarrow> string" where
  "locator_toString (ByCss None) = ''By(css selector, undefined)''"
| "locator_toString (ByCss (Some css)) = ''By(css selector, '' @ css @ '')''"

fun find_elements :: "dom \<Rightarrow> locator \<Rightarrow> element list" where
  "find_elements d (ByCss None) = []"
| "find_elements d (ByCss (Some css)) = d css"

text \<open>
  An element finder is lazy: it holds a locator and looks the element up whenever it is
  queried. \<open>ElementBy l\<close> is \<open>element(l)\<close>; \<open>FirstWithText l t\<close> is
  \<open>element.all(l).filter(elem => elem.getText().then(actual => R.equals(actual, t))).first()\<close>,
  the finder that \<open>WaitCondition.presentWithText\<close> builds.
\<close>

datatype element_finder = ElementBy locator | FirstWithText locator jsval

fun locator_of :: "element_finder \<Rightarrow> locator" where
  "locator_of (ElementBy l) = l"
| "locator_of (FirstWithText l t) = l"

fun resolve :: "element_finder \<Rightarrow> dom \<Rightarrow> element option" where
  "resolve (ElementBy l) d = (case find_elements d l of [] \<Rightarrow> None | e # _ \<Rightarrow> Some e)"
| "resolve (FirstWithText l t) d =
     (case filter (\<lambda>elem. JStr (innerText elem) = t) (find_elements d l) of
        [] \<Rightarrow> None | e # _ \<Rightarrow> Some e)"

text \<open>What a test passes as \<open>selector\<close>: a CSS selector, a Protractor element, or nothing.\<close>

datatype selector = NoSelector | Css string | Element element_finder

datatype error =
    TimeoutError string
  | NoSuchElementError locator
  | ElementNotInteractableError locator

datatype 'a outcome = Fulfilled 'a | Rejected error

text \<open>\<open>promise.then(onFulfilled, onRejected)\<close> with handlers that return plain values.\<close>

fun then2 :: "'a outcome \<Rightarrow> ('a \<Rightarrow> 'b) \<Rightarrow> (error \<Rightarrow> 'b) \<Rightarrow> 'b outcome" where
  "then2 (Fulfilled v) onFulfilled onRejected = Fulfilled (onFulfilled v)"
| "then2 (Rejected e) onFulfilled onRejected = Fulfilled (onRejected e)"

text \<open>\<open>R.T\<close> and \<open>R.F\<close>: the constant functions.\<close>

definition R_T :: "'a \<Rightarrow> jsval" where
  "R_T x = JBool True"

definition R_F :: "'a \<Rightarrow> jsval" where
  "R_F x = JBool False"

section \<open>The browser session\<close>

text \<open>
  The session is threaded through every call. \<open>now\<close> is the clock in milliseconds,
  \<open>page t\<close> the DOM at time \<open>t\<close> (the page changes on its own while a test waits),
  \<open>delay t\<close> the extra time a round trip to the browser takes when started at \<open>t\<close>
  (every round trip takes at least one millisecond), and \<open>log\<close> what the session did to
  the browser, in order.
\<close>

datatype event =
    Evaluated nat
  | Clicked element_finder nat
  | Focused element_finder nat

record session =
  now :: nat
  page :: "nat \<Rightarrow> dom"
  delay :: "nat \<Rightarrow> nat"
  log :: "event list"
  defaultExpectationTimeout :: "int option"

definition round_trip :: "event \<Rightarrow> session \<Rightarrow> session" where
  "round_trip ev s = s\<lparr>now := now s + Suc (delay s (now s)), log := log s @ [ev]\<rparr>"

section \<open>The wait primitive of the automation client\<close>

text \<open>
  \<open>browser.wait(condition, timeout, message)\<close> polls a function until the promise it
  returns fulfils with a truthy value; a rejection of that promise ends the wait with the
  same error. After each evaluation that was falsy it gives up when a timeout was given
  (\<open>timeout && elapsed >= timeout\<close>) and otherwise polls again; with no timeout it polls
  for ever, which is the value \<open>None\<close>. The error of an expired wait reads
  \<open>message\<close>, a line break, and \<open>Wait timed out after <elapsed>ms\<close>.
\<close>

definition expired :: "int option \<Rightarrow> nat \<Rightarrow> bool" where
  "expired timeout elapsed =
     (case timeout of None \<Rightarrow> False | Some t \<Rightarrow> t \<noteq> 0 \<and> t \<le> int elapsed)"

text \<open>An optional text is truthy when it is given and not empty.\<close>

fun truthy_text :: "string option \<Rightarrow> bool" where
  "truthy_text None = False"
| "truthy_text (Some m) = (m \<noteq> [])"

definition timeout_text :: "string option \<Rightarrow> nat \<Rightarrow> string" where
  "timeout_text message elapsed =
     (if truthy_text message then the message @ [CHR 0x0A] else [])
     @ ''Wait timed out after '' @ show_nat elapsed @ ''ms''"

partial_function (option) pollCondition ::
  "(dom \<Rightarrow> jsval outcome) \<Rightarrow> int option \<Rightarrow> string option \<Rightarrow> nat \<Rightarrow> session
     \<Rightarrow> (jsval outcome \<times> session) option" where
  "pollCondition fn timeout message startTime s =
     (let r = fn (page s (now s));
          s' = round_trip (Evaluated (now s)) s;
          elapsed = now s' - startTime
      in case r of
           Rejected e \<Rightarrow> Some (Rejected e, s')
         | Fulfilled v \<Rightarrow>
             if truthy v then Some (Fulfilled v, s')
             else if expired timeout elapsed
               then Some (Rejected (TimeoutError (timeout_text message elapsed)), s')
             else pollCondition fn timeout message startTime s')"

declare pollCondition.simps [code]

text \<open>
  What can be waited on: a \<open>webdriver.Condition\<close> object, which brings its own
  description, or a plain function.
\<close>

datatype waitable = Condition string "dom \<Rightarrow> jsval outcome" | Fn "dom \<Rightarrow> jsval outcome"

fun waitable_fn :: "waitable \<Rightarrow> dom \<Rightarrow> jsval outcome" where
  "waitable_fn (Condition description fn) = fn"
| "waitable_fn (Fn fn) = fn"

text \<open>\<open>message = opt_message || condition.description()\<close>, for a Condition object only.\<close>

fun waitable_message :: "waitable \<Rightarrow> string option \<Rightarrow> string option" where
  "waitable_message (Condition description fn) opt_message =
     (if truthy_text opt_message then opt_message else Some description)"
| "waitable_message (Fn fn) opt_message = opt_message"

definition browser_wait ::
  "waitable \<Rightarrow> int option \<Rightarrow> string option \<Rightarrow> session \<Rightarrow> (jsval outcome \<times> session) option" where
  "browser_wait w timeout opt_message s =
     pollCondition (waitable_fn w) timeout (waitable_message w opt_message) (now s) s"

section \<open>Collaborators of the wait engine\<close>

text \<open>
  Modelled from the spec: \<open>element-util.js\<close> is not under \<open>src/\<close>. The spec names it
  the ``locate element'' primitive, and the DSL documents a selector as a CSS selector or
  a Protractor element: a CSS selector becomes \<open>element(By.css(selector))\<close>, an element
  is returned as it is. A call without a selector hands \<open>undefined\<close> to \<open>By.css\<close>.
\<close>

fun ElementUtil_elementFinder :: "selector \<Rightarrow> element_finder" where
  "ElementUtil_elementFinder (Css css) = ElementBy (ByCss (Some css))"
| "ElementUtil_elementFinder (Element finder) = finder"
| "ElementUtil_elementFinder NoSelector = ElementBy (ByCss None)"

type_synonym condition = "element_finder \<Rightarrow> dom \<Rightarrow> jsval outcome"

text \<open>
  Modelled from the spec: \<open>condition.js\<close> is not under \<open>src/\<close>. The spec describes
  Condition as pure predicate constructors (checkbox state, visibility, text match,
  element count) that compose. \<open>holds_on p\<close> is their common shape: a predicate of the
  element that the finder resolves to in the current DOM, which an element that is not
  there does not satisfy.
\<close>

definition holds_on :: "(element \<Rightarrow> bool) \<Rightarrow> condition" where
  "holds_on p finder d =
     Fulfilled (JBool (case resolve finder d of None \<Rightarrow> False | Some e \<Rightarrow> p e))"

text \<open>Modelled from the spec: \<open>Condition.present\<close> of \<open>condition.js\<close>, the element is in the DOM.\<close>

definition Condition_present :: condition where
  "Condition_present = holds_on (\<lambda>e. True)"

text \<open>Modelled from the spec: \<open>Condition.displayed\<close> of \<open>condition.js\<close>, the visibility predicate.\<close>

definition Condition_displayed :: condition where
  "Condition_displayed = holds_on displayed"

text \<open>Modelled from the spec: \<open>Condition.enabled\<close> of \<open>condition.js\<close>, the element is not disabled.\<close>

definition Condition_enabled :: condition where
  "Condition_enabled = holds_on enabled"

text \<open>Modelled from the spec: \<open>Condition.clickable\<close> of \<open>condition.js\<close>, the element is visible and enabled.\<close>

definition Condition_clickable :: condition where
  "Condition_clickable = holds_on (\<lambda>e. displayed e \<and> enabled e)"

text \<open>Modelled from the spec: \<open>Condition.checkboxChecked\<close> of \<open>condition.js\<close>, the checkbox state.\<close>

definition Condition_checkboxChecked :: "bool \<Rightarrow> condition" where
  "Condition_checkboxChecked checked = holds_on (\<lambda>e. selected e = checked)"

text \<open>Modelled from the spec: \<open>Condition.textEquals\<close> of \<open>condition.js\<close>, the exact text match.\<close>

definition Condition_textEquals :: "string \<Rightarrow> condition" where
  "Condition_textEquals t = holds_on (\<lambda>e. innerText e = t)"

text \<open>\<open>text.includes(sub)\<close>: \<open>sub\<close> occurs in \<open>text\<close>.\<close>

fun contains :: "string \<Rightarrow> string \<Rightarrow> bool" where
  "contains [] sub = (sub = [])"
| "contains (c # cs) sub = (take (length sub) (c # cs) = sub \<or> contains cs sub)"

text \<open>Modelled from the spec: \<open>Condition.textContains\<close> of \<open>condition.js\<close>, the partial text match.\<close>

definition Condition_textContains :: "string \<Rightarrow> condition" where
  "Condition_textContains t = holds_on (\<lambda>e. contains (innerText e) t)"

text \<open>
  Modelled from the spec: the element-count predicate of \<open>condition.js\<close>. It is built
  from the selector and the expected count and counts \<open>element.all(By.css(selector))\<close>,
  as \<open>Expectation.count\<close> does; the finder it is applied to plays no part.
\<close>

definition Condition_count :: "string \<Rightarrow> int \<Rightarrow> condition" where
  "Condition_count css expectedCount finder d =
     Fulfilled (JBool (int (length (find_elements d (ByCss (Some css)))) = expectedCount))"

text \<open>
  Modelled from the spec: \<open>Condition.not\<close> of \<open>condition.js\<close>, the composition that turns
  a predicate into its negation: truthy exactly where the given condition is falsy.
\<close>

definition Condition_not :: "condition \<Rightarrow> condition" where
  "Condition_not c finder d =
     (case c finder d of
        Rejected e \<Rightarrow> Rejected e
      | Fulfilled v \<Rightarrow> Fulfilled (JBool (\<not> truthy v)))"

datatype assertion = Expect "jsval outcome"

text \<open>
  Modelled from the spec: \<open>ActionUtil.execute\<close> of \<open>action-util.js\<close>, which is not under
  \<open>src/\<close>. It runs the action it is given on the session and returns what the action
  returns.
\<close>

definition ActionUtil_execute ::
  "(session \<Rightarrow> (jsval outcome \<times> session) option) \<Rightarrow> session \<Rightarrow> (jsval outcome \<times> session) option" where
  "ActionUtil_execute action s = action s"

text \<open>
  \<open>expect\<close> of the test framework: the assertion made about the outcome of a promise,
  once the promise is settled.
\<close>

definition expect :: "(jsval outcome \<times> session) option \<Rightarrow> (assertion \<times> session) option" where
  "expect p = (case p of None \<Rightarrow> None | Some (r, s') \<Rightarrow> Some (Expect r, s'))"

text \<open>
  Modelled from the spec: \<open>ActionUtil.expectExecutedAction\<close> of \<open>action-util.js\<close>, which
  is not under \<open>src/\<close>. The spec says that the DSL wraps wait-engine results into
  assertions: the callback is executed and its result handed to \<open>expect\<close>.
\<close>

definition ActionUtil_expectExecutedAction ::
  "(session \<Rightarrow> (jsval outcome \<times> session) option) \<Rightarrow> session \<Rightarrow> (assertion \<times> session) option" where
  "ActionUtil_expectExecutedAction callback s = expect (ActionUtil_execute callback s)"

text \<open>
  User actions of the automation client. Each is one round trip, recorded in the log; it
  is rejected when the element is not there or not visible.
\<close>

definition interact :: "element_finder \<Rightarrow> dom \<Rightarrow> jsval outcome" where
  "interact finder d =
     (case resolve finder d of
        None \<Rightarrow> Rejected (NoSuchElementError (locator_of finder))
      | Some e \<Rightarrow>
          if displayed e then Fulfilled JNull
          else Rejected (ElementNotInteractableError (locator_of finder)))"

definition element_click :: "element_finder \<Rightarrow> session \<Rightarrow> jsval outcome \<times> session" where
  "element_click finder s =
     (interact finder (page s (now s)), round_trip (Clicked finder (now s)) s)"


definition getAttribute :: "element_finder \<Rightarrow> string \<Rightarrow> dom \<Rightarrow> string option outcome" where
  "getAttribute finder attrName d =
     (case resolve finder d of
        None \<Rightarrow> Rejected (NoSuchElementError (locator_of finder))
      | Some e \<Rightarrow> Fulfilled (attributes e attrName))"

text \<open>
  \<open>protractor.ExpectedConditions\<close>: \<open>presenceOf\<close>, and \<open>and\<close>, which is \<open>true\<close> when every
  function in turn fulfils with \<open>true\<close> and \<open>false\<close> at the first that does not.
\<close>

definition EC_presenceOf :: "element_finder \<Rightarrow> dom \<Rightarrow> jsval outcome" where
  "EC_presenceOf finder d = Fulfilled (JBool (resolve finder d \<noteq> None))"

definition EC_and ::
  "(dom \<Rightarrow> jsval outcome) \<Rightarrow> (dom \<Rightarrow> jsval outcome) \<Rightarrow> dom \<Rightarrow> jsval outcome" where
  "EC_and f g d =
     (case f d of
        Rejected e \<Rightarrow> Rejected e
      | Fulfilled a \<Rightarrow>
          if a = JBool True
          then (case g d of
                  Rejected e \<Rightarrow> Rejected e
                | Fulfilled b \<Rightarrow> Fulfilled (JBool (b = JBool True)))
          else Fulfilled (JBool False))"

text \<open>
  \<open>parseInt(string, 10)\<close>: leading white space is skipped, a sign is read, then the
  longest run of decimal digits; with no digit the result is \<open>NaN\<close>, here \<open>None\<close>.
  Strings are byte strings, so white space is the ASCII white space.
\<close>

definition is_whitespace :: "char \<Rightarrow> bool" where
  "is_whitespace c = (c \<in> {CHR 0x09, CHR 0x0A, CHR 0x0B, CHR 0x0C, CHR 0x0D, CHR 0x20})"

definition is_digit :: "char \<Rightarrow> bool" where
  "is_digit c = (48 \<le> (of_char c :: nat) \<and> (of_char c :: nat) \<le> 57)"

definition digit_value :: "char \<Rightarrow> nat" where
  "digit_value c = of_char c - 48"

definition digits_value :: "string \<Rightarrow> nat" where
  "digits_value Z = foldl (\<lambda>acc c. 10 * acc + digit_value c) 0 Z"

definition parseInt :: "string \<Rightarrow> int option" where
  "parseInt inputString =
     (let S = dropWhile is_whitespace inputString;
          (sign, S') = (case S of
                          [] \<Rightarrow> (1, [])
                        | c # rest \<Rightarrow>
                            if c = CHR ''-'' then (- 1, rest)
                            else if c = CHR ''+'' then (1, rest)
                            else (1, S));
          Z = takeWhile is_digit S'
      in if Z = [] then None else Some (sign * int (digits_value Z)))"

section \<open>WaitCondition (wait-condition.js)\<close>

definition quoted :: "string \<Rightarrow> string" where
  "quoted t = [CHR 0x27] @ t @ [CHR 0x27]"

definition WaitCondition_check ::
  "string \<Rightarrow> condition \<Rightarrow> selector \<Rightarrow> session \<Rightarrow> (jsval outcome \<times> session) option" where
  "WaitCondition_check message condition selector s =
     (let finder = (\<lambda>u::unit. ElementUtil_elementFinder selector);
          errorMessage = message @ ''. Selector: '' @ locator_toString (locator_of (finder ()));
          cond = Condition errorMessage (\<lambda>d. condition (finder ()) d)
      in browser_wait cond (js_or (defaultExpectationTimeout s) (Some 10000)) None s)"

definition WaitCondition_checkboxChecked ::
  "selector \<Rightarrow> bool \<Rightarrow> session \<Rightarrow> (jsval outcome \<times> session) option" where
  "WaitCondition_checkboxChecked selector checked =
     (let condition = Condition_checkboxChecked checked
      in WaitCondition_check ''for checkbox is selected'' condition selector)"

text \<open>\<open>count\<close> calls \<open>check\<close> with two arguments: no selector reaches \<open>check\<close>.\<close>

definition WaitCondition_count ::
  "string \<Rightarrow> int \<Rightarrow> session \<Rightarrow> (jsval outcome \<times> session) option" where
  "WaitCondition_count selector expectedCount =
     (let condition = Condition_count selector expectedCount
      in WaitCondition_check
           (''for element'' @ [CHR 0x27] @ ''s count to be '' @ quoted (show_int expectedCount))
           condition NoSelector)"

definition WaitCondition_disabled :: "selector \<Rightarrow> session \<Rightarrow> (jsval outcome \<times> session) option" where
  "WaitCondition_disabled selector =
     WaitCondition_check ''For element to be disabled'' (Condition_not Condition_enabled) selector"

definition WaitCondition_displayed :: "selector \<Rightarrow> session \<Rightarrow> (jsval outcome \<times> session) option" where
  "WaitCondition_displayed selector =
     WaitCondition_check ''For element to be displayed'' Condition_displayed selector"

definition WaitCondition_enabled :: "selector \<Rightarrow> session \<Rightarrow> (jsval outcome \<times> session) option" where
  "WaitCondition_enabled selector =
     WaitCondition_check ''For element to be enabled'' Condition_enabled selector"

definition WaitCondition_notDisplayed :: "selector \<Rightarrow> session \<Rightarrow> (jsval outcome \<times> session) option" where
  "WaitCondition_notDisplayed selector =
     (let condition = Condition_not Condition_displayed
      in WaitCondition_check ''For element to be displayed'' condition selector)"

definition WaitCondition_notPresent :: "selector \<Rightarrow> session \<Rightarrow> (jsval outcome \<times> session) option" where
  "WaitCondition_notPresent selector =
     (let condition = Condition_not Condition_present
      in WaitCondition_check ''For element to be absent'' condition selector)"

definition WaitCondition_present :: "selector \<Rightarrow> session \<Rightarrow> (jsval outcome \<times> session) option" where
  "WaitCondition_present selector =
     WaitCondition_check ''For element to be present'' Condition_present selector"

definition WaitCondition_presentWithText ::
  "string \<Rightarrow> jsval \<Rightarrow> session \<Rightarrow> (jsval outcome \<times> session) option" where
  "WaitCondition_presentWithText selector expectedText =
     (let foundElement = FirstWithText (ByCss (Some selector)) expectedText;
          msg = ''For element having text '' @ to_string expectedText @ '' to be present''
      in WaitCondition_check msg Condition_present (Element foundElement))"

text \<open>The message of \<open>textContains\<close> is a template literal that spans five lines.\<close>

definition WaitCondition_textContains ::
  "selector \<Rightarrow> string \<Rightarrow> session \<Rightarrow> (jsval outcome \<times> session) option" where
  "WaitCondition_textContains selector t =
     (let condition = Condition_textContains t
      in WaitCondition_check
           ([CHR 0x0A] @ ''    for'' @ [CHR 0x0A] @ ''    element'' @ [CHR 0x0A]
            @ ''    '' @ [CHR 0x27] @ ''s text to contain '' @ [CHR 0x27] @ t @ [CHR 0x0A]
            @ ''    '' @ [CHR 0x27])
           condition selector)"

definition WaitCondition_textEquals ::
  "selector \<Rightarrow> string \<Rightarrow> session \<Rightarrow> (jsval outcome \<times> session) option" where
  "WaitCondition_textEquals selector t =
     (let condition = Condition_textEquals t
      in WaitCondition_check
           (''for element'' @ [CHR 0x27] @ ''s text to be '' @ quoted t) condition selector)"

section \<open>Expectation (expectation.js)\<close>

definition checkCondition ::
  "selector \<Rightarrow> string \<Rightarrow> condition \<Rightarrow> session \<Rightarrow> (assertion \<times> session) option" where
  "checkCondition selector message condition =
     ActionUtil_expectExecutedAction (WaitCondition_check message condition selector)"

definition checkPresenceAndCondition ::
  "selector \<Rightarrow> (dom \<Rightarrow> jsval outcome) \<Rightarrow> session \<Rightarrow> (assertion \<times> session) option" where
  "checkPresenceAndCondition selector condition =
     (let elementFinder = ElementUtil_elementFinder selector
      in ActionUtil_expectExecutedAction
           (\<lambda>s. browser_wait (Fn (EC_and (EC_presenceOf elementFinder) condition))
                  (defaultExpectationTimeout s) None s))"

text \<open>
  The closure \<open>conditionHolds\<close> of \<open>attributeCondition\<close>:
  \<open>getAttribute(attrName).then(actualValue => !R.isNil(actualValue) && condition(actualValue), R.F)\<close>.
\<close>

definition conditionHolds ::
  "element_finder \<Rightarrow> string \<Rightarrow> (string \<Rightarrow> bool) \<Rightarrow> dom \<Rightarrow> jsval outcome" where
  "conditionHolds elementFinder attrName condition d =
     then2 (getAttribute elementFinder attrName d)
       (\<lambda>actualValue. JBool (case actualValue of None \<Rightarrow> False | Some v \<Rightarrow> condition v))
       R_F"

definition Expectation_attributeCondition ::
  "selector \<Rightarrow> string \<Rightarrow> (string \<Rightarrow> bool) \<Rightarrow> session \<Rightarrow> (assertion \<times> session) option" where
  "Expectation_attributeCondition selector attrName condition =
     (let elementFinder = ElementUtil_elementFinder selector
      in checkPresenceAndCondition selector (conditionHolds elementFinder attrName condition))"

text \<open>
  The condition of \<open>attributeValueNotLessThan\<close>,
  \<open>R.gte(parseInt(actualValue, 10), minValue)\<close>; a comparison with \<open>NaN\<close> is false.
\<close>

definition notLessThan :: "int \<Rightarrow> string \<Rightarrow> bool" where
  "notLessThan minValue actualValue =
     (case parseInt actualValue of None \<Rightarrow> False | Some n \<Rightarrow> minValue \<le> n)"

definition Expectation_attributeValueNotLessThan ::
  "selector \<Rightarrow> string \<Rightarrow> int \<Rightarrow> session \<Rightarrow> (assertion \<times> session) option" where
  "Expectation_attributeValueNotLessThan selector attrName minValue =
     Expectation_attributeCondition selector attrName (notLessThan minValue)"



definition Expectation_checkboxChecked ::
  "selector \<Rightarrow> bool \<Rightarrow> session \<Rightarrow> (assertion \<times> session) option" where
  "Expectation_checkboxChecked selector checked =
     ActionUtil_expectExecutedAction (WaitCondition_checkboxChecked selector checked)"

definition Expectation_clickable :: "selector \<Rightarrow> session \<Rightarrow> (assertion \<times> session) option" where
  "Expectation_clickable selector =
     checkCondition selector ''for element to be clickable'' Condition_clickable"

definition Expectation_condition ::
  "(dom \<Rightarrow> jsval outcome) \<Rightarrow> string option \<Rightarrow> session \<Rightarrow> (assertion \<times> session) option" where
  "Expectation_condition conditionFunction message =
     ActionUtil_expectExecutedAction
       (\<lambda>s. browser_wait (Fn conditionFunction) (defaultExpectationTimeout s) message s)"

definition Expectation_count :: "string \<Rightarrow> int \<Rightarrow> session \<Rightarrow> (assertion \<times> session) option" where
  "Expectation_count selector expectedCount =
     (let countIs = (\<lambda>d. Fulfilled
            (JBool (int (length (find_elements d (ByCss (Some selector)))) = expectedCount)))
      in Expectation_condition countIs None)"

definition Expectation_disabled :: "selector \<Rightarrow> session \<Rightarrow> (assertion \<times> session) option" where
  "Expectation_disabled selector =
     ActionUtil_expectExecutedAction (WaitCondition_disabled selector)"

definition Expectation_displayed :: "selector \<Rightarrow> session \<Rightarrow> (assertion \<times> session) option" where
  "Expectation_displayed selector =
     ActionUtil_expectExecutedAction (WaitCondition_displayed selector)"

definition Expectation_emptyText :: "selector \<Rightarrow> session \<Rightarrow> (assertion \<times> session) option" where
  "Expectation_emptyText selector =
     ActionUtil_expectExecutedAction (WaitCondition_textEquals selector [])"

definition Expectation_enabled :: "selector \<Rightarrow> session \<Rightarrow> (assertion \<times> session) option" where
  "Expectation_enabled selector =
     ActionUtil_expectExecutedAction (WaitCondition_enabled selector)"

definition Expectation_notDisplayed :: "selector \<Rightarrow> session \<Rightarrow> (assertion \<times> session) option" where
  "Expectation_notDisplayed selector =
     ActionUtil_expectExecutedAction (WaitCondition_notDisplayed selector)"

definition Expectation_notPresent :: "selector \<Rightarrow> session \<Rightarrow> (assertion \<times> session) option" where
  "Expectation_notPresent selector =
     ActionUtil_expectExecutedAction (WaitCondition_notPresent selector)"

definition Expectation_present :: "selector \<Rightarrow> session \<Rightarrow> (assertion \<times> session) option" where
  "Expectation_present selector =
     ActionUtil_expectExecutedAction (WaitCondition_present selector)"

text \<open>
  \<open>presentWithText\<close> takes the selector only and calls \<open>WaitCondition.presentWithText\<close>
  with that one argument: the expected text is \<open>undefined\<close> there.
\<close>

definition Expectation_presentWithText :: "string \<Rightarrow> session \<Rightarrow> (assertion \<times> session) option" where
  "Expectation_presentWithText selector =
     ActionUtil_expectExecutedAction (WaitCondition_presentWithText selector JUndefined)"

definition Expectation_textContains ::
  "selector \<Rightarrow> string \<Rightarrow> session \<Rightarrow> (assertion \<times> session) option" where
  "Expectation_textContains selector t =
     ActionUtil_expectExecutedAction (WaitCondition_textContains selector t)"

definition Expectation_textEquals ::
  "selector \<Rightarrow> string \<Rightarrow> session \<Rightarrow> (assertion \<times> session) option" where
  "Expectation_textEquals selector t =
     ActionUtil_expectExecutedAction (WaitCondition_textEquals selector t)"

definition Expectation_textNotEqual ::
  "selector \<Rightarrow> string \<Rightarrow> session \<Rightarrow> (assertion \<times> session) option" where
  "Expectation_textNotEqual selector t =
     (let msg = ''for element'' @ [CHR 0x27] @ ''s text not to be '' @ quoted t
      in checkCondition selector msg (Condition_not (Condition_textEquals t)))"

section \<open>Action\<close>

text \<open>
  The statements of an action run one after the other on the session; the assertion that
  \<open>Expectation.clickable\<close> returns is dropped, as in the source.
\<close>

definition Action_click :: "selector \<Rightarrow> session \<Rightarrow> (assertion \<times> session) option" where
  "Action_click selector s =
     (case Expectation_clickable selector s of
        None \<Rightarrow> None
      | Some (clickable, s1) \<Rightarrow>
          ActionUtil_expectExecutedAction
            (\<lambda>s2. Some (element_click (ElementUtil_elementFinder selector) s2)) s1)"

definition Action_clickIfClickable :: "selector \<Rightarrow> session \<Rightarrow> (assertion \<times> session) option" where
  "Action_clickIfClickable selector s =
     (let finder = ElementUtil_elementFinder selector
      in expect (ActionUtil_execute
           (\<lambda>s1. case element_click finder s1 of (r, s2) \<Rightarrow> Some (then2 r R_T R_T, s2)) s))"


section \<open>Sample sessions\<close>

text \<open>A session on an empty page that never changes, with round trips of one millisecond.\<close>

definition blank_session :: "int option \<Rightarrow> session" where
  "blank_session g = \<lparr>now = 0, page = (\<lambda>t css. []), delay = (\<lambda>t. 0), log = [],
     defaultExpectationTimeout = g\<rparr>"

text \<open>An element, and a session whose page shows it under \<open>.row\<close> from time 1 on.\<close>

definition sample_element :: element where
  "sample_element = \<lparr>displayed = True, enabled = True, selected = False,
     innerText = ''Hello'', attributes = [''scrollHeight'' \<mapsto> ''101'']\<rparr>"

definition late_session :: "int option \<Rightarrow> session" where
  "late_session g = \<lparr>now = 0,
     page = (\<lambda>t css. if 1 \<le> t \<and> css = ''.row'' then [sample_element] else []),
     delay = (\<lambda>t. 0), log = [], defaultExpectationTimeout = g\<rparr>"

section \<open>Properties of the wait primitive\<close>

lemma round_trip_simps [simp]:
  "now (round_trip ev s) = now s + Suc (delay s (now s))"
  "page (round_trip ev s) = page s"
  "delay (round_trip ev s) = delay s"
  "log (round_trip ev s) = log s @ [ev]"
  "defaultExpectationTimeout (round_trip ev s) = defaultExpectationTimeout s"
  by (simp_all add: round_trip_def)

lemma poll_trace:
  assumes "truthy_num timeout" and "startTime \<le> now s"
  shows "\<exists>r s' pre tlast.
           pollCondition fn timeout message startTime s = Some (r, s')
         \<and> log s' = log s @ map Evaluated (pre @ [tlast])
         \<and> page s' = page s \<and> delay s' = delay s
         \<and> defaultExpectationTimeout s' = defaultExpectationTimeout s
         \<and> now s < now s'
         \<and> (\<forall>t \<in> set (pre @ [tlast]). now s \<le> t \<and> t < now s')
         \<and> (\<forall>t \<in> set (pre @ [tlast]). t = now s \<or> \<not> expired timeout (t - startTime))
         \<and> (\<forall>t \<in> set pre. \<exists>v. fn (page s t) = Fulfilled v \<and> \<not> truthy v)
         \<and> (case fn (page s tlast) of
               Rejected e \<Rightarrow> r = Rejected e
             | Fulfilled v \<Rightarrow>
                 if truthy v then r = Fulfilled v
                 else r = Rejected (TimeoutError (timeout_text message (now s' - startTime)))
                      \<and> expired timeout (now s' - startTime))"
  using assms
proof (induction "nat (the timeout - int (now s - startTime))" arbitrary: s rule: less_induct)
  case less
  let ?s1 = "round_trip (Evaluated (now s)) s"
  show ?case
  proof (cases "fn (page s (now s))")
    case (Rejected e)
    then have "pollCondition fn timeout message startTime s = Some (Rejected e, ?s1)"
      by (subst pollCondition.simps) simp
    then show ?thesis using Rejected
      by (intro exI[of _ "Rejected e"] exI[of _ ?s1] exI[of _ "[]"] exI[of _ "now s"]) simp
  next
    case (Fulfilled v)
    show ?thesis
    proof (cases "truthy v")
      case True
      then have "pollCondition fn timeout message startTime s = Some (Fulfilled v, ?s1)"
        using Fulfilled by (subst pollCondition.simps) simp
      then show ?thesis using Fulfilled True
        by (intro exI[of _ "Fulfilled v"] exI[of _ ?s1] exI[of _ "[]"] exI[of _ "now s"]) simp
    next
      case False
      show ?thesis
      proof (cases "expired timeout (now ?s1 - startTime)")
        case True
        then have "pollCondition fn timeout message startTime s
            = Some (Rejected (TimeoutError (timeout_text message (now ?s1 - startTime))), ?s1)"
          using Fulfilled False by (subst pollCondition.simps) (simp add: Let_def)
        then show ?thesis using Fulfilled False True
          by (intro exI[of _ "Rejected (TimeoutError (timeout_text message (now ?s1 - startTime)))"]
                exI[of _ ?s1] exI[of _ "[]"] exI[of _ "now s"]) simp
      next
        case notexp: False
        have unfold: "pollCondition fn timeout message startTime s
            = pollCondition fn timeout message startTime ?s1"
          using Fulfilled False notexp by (subst pollCondition.simps) (simp add: Let_def)
        obtain T where T: "timeout = Some T" "T \<noteq> 0"
          using less.prems(1) by (cases timeout) auto
        have lt: "int (now ?s1 - startTime) < T"
          using notexp T by (simp add: expired_def)
        have "nat (the timeout - int (now ?s1 - startTime)) < nat (the timeout - int (now s - startTime))"
          using lt T less.prems(2) by simp
        moreover have "startTime \<le> now ?s1" using less.prems(2) by simp
        ultimately obtain r s' pre tlast where IH:
          "pollCondition fn timeout message startTime ?s1 = Some (r, s')"
          "log s' = log ?s1 @ map Evaluated (pre @ [tlast])"
          "page s' = page ?s1" "delay s' = delay ?s1"
          "defaultExpectationTimeout s' = defaultExpectationTimeout ?s1"
          "now ?s1 < now s'"
          "\<forall>t \<in> set (pre @ [tlast]). now ?s1 \<le> t \<and> t < now s'"
          "\<forall>t \<in> set (pre @ [tlast]). t = now ?s1 \<or> \<not> expired timeout (t - startTime)"
          "\<forall>t \<in> set pre. \<exists>v. fn (page ?s1 t) = Fulfilled v \<and> \<not> truthy v"
          "case fn (page ?s1 tlast) of
               Rejected e \<Rightarrow> r = Rejected e
             | Fulfilled v \<Rightarrow>
                 if truthy v then r = Fulfilled v
                 else r = Rejected (TimeoutError (timeout_text message (now s' - startTime)))
                      \<and> expired timeout (now s' - startTime)"
          using less.hyps[of ?s1] less.prems(1) by blast
        show ?thesis
          using IH unfold Fulfilled False notexp
          by (intro exI[of _ r] exI[of _ s'] exI[of _ "now s # pre"] exI[of _ tlast])
             (auto simp: )
      qed
    qed
  qed
qed

lemma truthy_check_timeout: "truthy_num (js_or g (Some 10000))"
  by (simp add: js_or_def)

lemma check_trace:
  "\<exists>r s' pre tlast.
     WaitCondition_check message condition selector s = Some (r, s')
   \<and> log s' = log s @ map Evaluated (pre @ [tlast])
   \<and> page s' = page s \<and> delay s' = delay s
   \<and> defaultExpectationTimeout s' = defaultExpectationTimeout s
   \<and> now s < now s'
   \<and> (\<forall>t \<in> set (pre @ [tlast]). now s \<le> t \<and> t < now s')
   \<and> (\<forall>t \<in> set (pre @ [tlast]).
         t = now s \<or> \<not> expired (js_or (defaultExpectationTimeout s) (Some 10000)) (t - now s))
   \<and> (\<forall>t \<in> set pre.
         \<exists>v. condition (ElementUtil_elementFinder selector) (page s t) = Fulfilled v \<and> \<not> truthy v)
   \<and> (case condition (ElementUtil_elementFinder selector) (page s tlast) of
         Rejected e \<Rightarrow> r = Rejected e
       | Fulfilled v \<Rightarrow>
           if truthy v then r = Fulfilled v
           else r = Rejected (TimeoutError (timeout_text
                      (Some (message @ ''. Selector: ''
                         @ locator_toString (locator_of (ElementUtil_elementFinder selector))))
                      (now s' - now s)))
                \<and> expired (js_or (defaultExpectationTimeout s) (Some 10000)) (now s' - now s))"
  unfolding WaitCondition_check_def browser_wait_def Let_def waitable_fn.simps
    waitable_message.simps truthy_text.simps if_False
  by (rule poll_trace [OF truthy_check_timeout order_refl])

lemma check_falsy_times_out:
  assumes "\<forall>t. now s \<le> t
             \<and> (t = now s \<or> \<not> expired (js_or (defaultExpectationTimeout s) (Some 10000)) (t - now s))
           \<longrightarrow> (\<exists>v. condition (ElementUtil_elementFinder selector) (page s t) = Fulfilled v
                     \<and> \<not> truthy v)"
  shows "\<exists>elapsed s'.
           WaitCondition_check message condition selector s
             = Some (Rejected (TimeoutError
                 (message @ ''. Selector: ''
                    @ locator_toString (locator_of (ElementUtil_elementFinder selector))
                    @ [CHR 0x0A] @ ''Wait timed out after '' @ show_nat elapsed @ ''ms'')), s')
         \<and> expired (js_or (defaultExpectationTimeout s) (Some 10000)) elapsed"
proof -
  obtain r s' pre tlast where tr:
    "WaitCondition_check message condition selector s = Some (r, s')"
    "\<forall>t \<in> set (pre @ [tlast]). now s \<le> t \<and> t < now s'"
    "\<forall>t \<in> set (pre @ [tlast]).
         t = now s \<or> \<not> expired (js_or (defaultExpectationTimeout s) (Some 10000)) (t - now s)"
    "case condition (ElementUtil_elementFinder selector) (page s tlast) of
         Rejected e \<Rightarrow> r = Rejected e
       | Fulfilled v \<Rightarrow>
           if truthy v then r = Fulfilled v
           else r = Rejected (TimeoutError (timeout_text
                      (Some (message @ ''. Selector: ''
                         @ locator_toString (locator_of (ElementUtil_elementFinder selector))))
                      (now s' - now s)))
                \<and> expired (js_or (defaultExpectationTimeout s) (Some 10000)) (now s' - now s)"
    using check_trace [of message condition selector s] by blast
  have "now s \<le> tlast" and "tlast = now s
      \<or> \<not> expired (js_or (defaultExpectationTimeout s) (Some 10000)) (tlast - now s)"
    using tr(2,3) by simp_all
  then obtain v where "condition (ElementUtil_elementFinder selector) (page s tlast) = Fulfilled v"
    and "\<not> truthy v"
    using assms by blast
  then have "r = Rejected (TimeoutError (timeout_text
                      (Some (message @ ''. Selector: ''
                         @ locator_toString (locator_of (ElementUtil_elementFinder selector))))
                      (now s' - now s)))"
    and "expired (js_or (defaultExpectationTimeout s) (Some 10000)) (now s' - now s)"
    using tr(4) by simp_all
  then show ?thesis
    using tr(1) by (intro exI[of _ "now s' - now s"] exI[of _ s']) (simp add: timeout_text_def)
qed

section \<open>Claims about WaitCondition.check\<close>






lemma holds_on_not:
  "Condition_not (holds_on p) finder d
     = Fulfilled (JBool (\<not> (case resolve finder d of None \<Rightarrow> False | Some e \<Rightarrow> p e)))"
  by (simp add: Condition_not_def holds_on_def)

lemma negated_wait_trace:
  "\<exists>r s' pre tlast.
     WaitCondition_check message (Condition_not (holds_on p)) selector s = Some (r, s')
   \<and> log s' = log s @ map Evaluated (pre @ [tlast])
   \<and> (\<forall>t \<in> set pre. holds_on p (ElementUtil_elementFinder selector) (page s t)
                        = Fulfilled (JBool True))
   \<and> (if holds_on p (ElementUtil_elementFinder selector) (page s tlast) = Fulfilled (JBool False)
       then r = Fulfilled (JBool True)
       else \<exists>description. r = Rejected (TimeoutError description))"
proof -
  let ?c = "Condition_not (holds_on p)"
  obtain r s' pre tlast where tr:
    "WaitCondition_check message ?c selector s = Some (r, s')"
    "log s' = log s @ map Evaluated (pre @ [tlast])"
    "\<forall>t \<in> set pre.
         \<exists>v. ?c (ElementUtil_elementFinder selector) (page s t) = Fulfilled v \<and> \<not> truthy v"
    "case ?c (ElementUtil_elementFinder selector) (page s tlast) of
         Rejected e \<Rightarrow> r = Rejected e
       | Fulfilled v \<Rightarrow>
           if truthy v then r = Fulfilled v
           else r = Rejected (TimeoutError (timeout_text
                      (Some (message @ ''. Selector: ''
                         @ locator_toString (locator_of (ElementUtil_elementFinder selector))))
                      (now s' - now s)))
                \<and> expired (js_or (defaultExpectationTimeout s) (Some 10000)) (now s' - now s)"
    using check_trace [of message ?c selector s] by blast
  have pre: "\<forall>t \<in> set pre. holds_on p (ElementUtil_elementFinder selector) (page s t)
                        = Fulfilled (JBool True)"
    using tr(3) by (auto simp: holds_on_not) (simp add: holds_on_def)
  have last: "if holds_on p (ElementUtil_elementFinder selector) (page s tlast) = Fulfilled (JBool False)
       then r = Fulfilled (JBool True)
       else \<exists>description. r = Rejected (TimeoutError description)"
    using tr(4) by (auto simp: holds_on_not) (simp_all add: holds_on_def)
  from tr(1,2) pre last show ?thesis by blast
qed

section \<open>Claims about the negative waits\<close>

text \<open>
  C5: \<open>WaitCondition.disabled\<close>, \<open>notDisplayed\<close> and \<open>notPresent\<close> are \<open>check\<close> on
  \<open>Condition.not\<close> of \<open>Condition.enabled\<close>, \<open>displayed\<close> and \<open>present\<close>; the negated
  condition is the pointwise negation of the positive one; and each wait returns,
  having seen the positive condition true at every poll before the last, fulfilled with
  \<open>true\<close> when the positive condition was false on the located element at the last
  poll and rejected with a timeout error otherwise.
\<close>

theorem negative_waits_negate:
  "\<forall>(wait, positive) \<in> {(WaitCondition_disabled, Condition_enabled),
                           (WaitCondition_notDisplayed, Condition_displayed),
                           (WaitCondition_notPresent, Condition_present)}.
     (\<exists>message. wait selector = WaitCondition_check message (Condition_not positive) selector)
   \<and> (\<forall>finder d. \<exists>b. positive finder d = Fulfilled (JBool b)
                      \<and> Condition_not positive finder d = Fulfilled (JBool (\<not> b)))
   \<and> (\<exists>r s' pre tlast.
         wait selector s = Some (r, s')
       \<and> log s' = log s @ map Evaluated (pre @ [tlast])
       \<and> (\<forall>t \<in> set pre. positive (ElementUtil_elementFinder selector) (page s t)
                            = Fulfilled (JBool True))
       \<and> (if positive (ElementUtil_elementFinder selector) (page s tlast) = Fulfilled (JBool False)
           then r = Fulfilled (JBool True)
           else \<exists>description. r = Rejected (TimeoutError description)))"
proof -
  have neg: "\<exists>b. holds_on p finder d = Fulfilled (JBool b)
                \<and> Condition_not (holds_on p) finder d = Fulfilled (JBool (\<not> b))"
    for p finder d
    by (simp add: holds_on_not) (simp add: holds_on_def)
  have disabled: "\<exists>message. WaitCondition_disabled selector
      = WaitCondition_check message (Condition_not Condition_enabled) selector"
    unfolding WaitCondition_disabled_def by blast
  have notDisplayed: "\<exists>message. WaitCondition_notDisplayed selector
      = WaitCondition_check message (Condition_not Condition_displayed) selector"
    unfolding WaitCondition_notDisplayed_def Let_def by blast
  have notPresent: "\<exists>message. WaitCondition_notPresent selector
      = WaitCondition_check message (Condition_not Condition_present) selector"
    unfolding WaitCondition_notPresent_def Let_def by blast
  show ?thesis
    unfolding ball_simps insert_iff empty_iff
    using neg disabled notDisplayed notPresent negated_wait_trace
    unfolding WaitCondition_disabled_def WaitCondition_notDisplayed_def
      WaitCondition_notPresent_def Let_def
      Condition_enabled_def Condition_displayed_def Condition_present_def
    by simp
qed

theorem negative_waits_negate_witness:
  "\<exists>s'. WaitCondition_notPresent (Css ''.row'') (blank_session None)
          = Some (Fulfilled (JBool True), s')"
proof -
  have mem: "(WaitCondition_notPresent, Condition_present)
      \<in> {(WaitCondition_disabled, Condition_enabled),
         (WaitCondition_notDisplayed, Condition_displayed),
         (WaitCondition_notPresent, Condition_present)}"
    by simp
  have "\<exists>r s' pre tlast.
         WaitCondition_notPresent (Css ''.row'') (blank_session None) = Some (r, s')
       \<and> log s' = log (blank_session None) @ map Evaluated (pre @ [tlast])
       \<and> (\<forall>t \<in> set pre. Condition_present (ElementUtil_elementFinder (Css ''.row''))
                            (page (blank_session None) t) = Fulfilled (JBool True))
       \<and> (if Condition_present (ElementUtil_elementFinder (Css ''.row''))
                (page (blank_session None) tlast) = Fulfilled (JBool False)
           then r = Fulfilled (JBool True)
           else \<exists>description. r = Rejected (TimeoutError description))"
    using bspec [OF negative_waits_negate [where selector = "Css ''.row''"
        and s = "blank_session None"] mem]
    by (simp only: prod.case)
  then obtain r s' tlast where
    "WaitCondition_notPresent (Css ''.row'') (blank_session None) = Some (r, s')"
    "if Condition_present (ElementUtil_elementFinder (Css ''.row''))
          (page (blank_session None) tlast) = Fulfilled (JBool False)
     then r = Fulfilled (JBool True)
     else \<exists>description. r = Rejected (TimeoutError description)"
    by blast
  moreover have "Condition_present (ElementUtil_elementFinder (Css ''.row''))
          (page (blank_session None) tlast) = Fulfilled (JBool False)"
    by (simp add: blank_session_def Condition_present_def holds_on_def)
  ultimately show ?thesis by simp
qed


section \<open>Claims about Action\<close>



lemma late_click:
  "Action_click (Css ''.row'') (late_session (Some 5))
     = Some (Expect (Fulfilled JNull),
         (late_session (Some 5))\<lparr>now := 3,
            log := [Evaluated 0, Evaluated 1, Clicked (ElementBy (ByCss (Some ''.row''))) 2]\<rparr>)"
  unfolding Action_click_def Expectation_clickable_def checkCondition_def
    ActionUtil_expectExecutedAction_def ActionUtil_execute_def
    WaitCondition_check_def browser_wait_def Let_def
  apply (subst pollCondition.simps)
  apply (simp add: late_session_def Condition_clickable_def holds_on_def round_trip_def
       expired_def js_or_def)
  apply (subst pollCondition.simps)
  apply (simp add: late_session_def Condition_clickable_def holds_on_def round_trip_def
       expired_def js_or_def sample_element_def expect_def element_click_def interact_def)
  done

text \<open>
  C10: \<open>then(R.T, R.T)\<close> maps a fulfilled and a rejected click alike to \<open>true\<close>, so what
  \<open>Action.clickIfClickable\<close> hands to \<open>expect\<close> is always fulfilled with \<open>true\<close>, after
  the one click.
\<close>

theorem clickIfClickable_maps_to_true:
  "(\<forall>r. then2 r R_T R_T = Fulfilled (JBool True))
   \<and> Action_clickIfClickable selector s
       = Some (Expect (Fulfilled (JBool True)),
               round_trip (Clicked (ElementUtil_elementFinder selector) (now s)) s)"
proof -
  have t: "then2 r R_T R_T = Fulfilled (JBool True)" for r :: "'b outcome"
    by (cases r) (simp_all add: R_T_def)
  show ?thesis
    by (simp add: Action_clickIfClickable_def ActionUtil_execute_def expect_def
        element_click_def t Let_def)
qed

section \<open>Claims about the timeout\<close>

text \<open>
  With no timeout, a wait on a function that stays falsy does not return.
\<close>

lemma poll_forever_aux:
  "pollCondition fn timeout message startTime s = Some y \<Longrightarrow>
   \<not> truthy_num timeout \<and> (\<forall>t. \<exists>v. fn (page s t) = Fulfilled v \<and> \<not> truthy v) \<longrightarrow> False"
proof (induction fn timeout message startTime s y
    rule: pollCondition.raw_induct [rotated 1, consumes 1, case_names step])
  case (step pollCondition fn timeout message startTime s y)
  show ?case
  proof
    assume a: "\<not> truthy_num timeout \<and> (\<forall>t. \<exists>v. fn (page s t) = Fulfilled v \<and> \<not> truthy v)"
    then obtain v where v: "fn (page s (now s)) = Fulfilled v" "\<not> truthy v"
      by blast
    have ne: "\<not> expired timeout e" for e
      using a by (cases timeout) (simp_all add: expired_def)
    have "pollCondition fn timeout message startTime (round_trip (Evaluated (now s)) s) = Some y"
      using step(2) v ne by (simp add: Let_def)
    then show False
      using step(1) [of fn timeout message startTime "round_trip (Evaluated (now s)) s" y] a
      by simp
  qed
qed

lemma poll_forever:
  assumes "\<not> truthy_num timeout"
    and "\<forall>t. \<exists>v. fn (page s t) = Fulfilled v \<and> \<not> truthy v"
  shows "pollCondition fn timeout message startTime s = None"
proof (cases "pollCondition fn timeout message startTime s")
  case None
  then show ?thesis .
next
  case (Some y)
  then show ?thesis using poll_forever_aux [OF Some] assms by blast
qed

text \<open>
  C8: \<open>WaitCondition.check\<close> waits with the global \<open>defaultExpectationTimeout\<close> when that
  is truthy and with 10000 milliseconds otherwise, while \<open>Expectation.condition\<close> hands the
  global itself to the wait. So with a falsy global and a condition that stays falsy,
  \<open>check\<close> is rejected with a timeout error no sooner than 10000 milliseconds after it
  began, and \<open>Expectation.condition\<close> does not return.
\<close>

theorem check_timeout_fallback:
  "WaitCondition_check message condition selector s
     = browser_wait
         (Condition (message @ ''. Selector: ''
              @ locator_toString (locator_of (ElementUtil_elementFinder selector)))
            (condition (ElementUtil_elementFinder selector)))
         (if truthy_num (defaultExpectationTimeout s) then defaultExpectationTimeout s
          else Some 10000)
         None s
   \<and> Expectation_condition conditionFunction opt_message s
     = expect (browser_wait (Fn conditionFunction) (defaultExpectationTimeout s) opt_message s)
   \<and> (\<not> truthy_num (defaultExpectationTimeout s)
        \<and> (\<forall>t. \<exists>v. condition (ElementUtil_elementFinder selector) (page s t) = Fulfilled v
                    \<and> \<not> truthy v)
      \<longrightarrow> (\<exists>description s'.
             WaitCondition_check message condition selector s
               = Some (Rejected (TimeoutError description), s')
           \<and> now s + 10000 \<le> now s'))
   \<and> (\<not> truthy_num (defaultExpectationTimeout s)
        \<and> (\<forall>t. \<exists>v. conditionFunction (page s t) = Fulfilled v \<and> \<not> truthy v)
      \<longrightarrow> Expectation_condition conditionFunction opt_message s = None)"
proof (intro conjI impI)
  show "WaitCondition_check message condition selector s
     = browser_wait
         (Condition (message @ ''. Selector: ''
              @ locator_toString (locator_of (ElementUtil_elementFinder selector)))
            (condition (ElementUtil_elementFinder selector)))
         (if truthy_num (defaultExpectationTimeout s) then defaultExpectationTimeout s
          else Some 10000)
         None s"
    by (simp add: WaitCondition_check_def js_or_def Let_def)
  show "Expectation_condition conditionFunction opt_message s
     = expect (browser_wait (Fn conditionFunction) (defaultExpectationTimeout s) opt_message s)"
    by (simp add: Expectation_condition_def ActionUtil_expectExecutedAction_def
        ActionUtil_execute_def)
next
  assume a: "\<not> truthy_num (defaultExpectationTimeout s)
        \<and> (\<forall>t. \<exists>v. condition (ElementUtil_elementFinder selector) (page s t) = Fulfilled v
                    \<and> \<not> truthy v)"
  then have falsy: "\<forall>t. now s \<le> t
             \<and> (t = now s \<or> \<not> expired (js_or (defaultExpectationTimeout s) (Some 10000)) (t - now s))
           \<longrightarrow> (\<exists>v. condition (ElementUtil_elementFinder selector) (page s t) = Fulfilled v
                     \<and> \<not> truthy v)"
    by blast
  obtain r s' pre tlast where tr:
    "WaitCondition_check message condition selector s = Some (r, s')"
    "now s < now s'"
    "\<forall>t \<in> set (pre @ [tlast]). now s \<le> t \<and> t < now s'"
    "case condition (ElementUtil_elementFinder selector) (page s tlast) of
         Rejected e \<Rightarrow> r = Rejected e
       | Fulfilled v \<Rightarrow>
           if truthy v then r = Fulfilled v
           else r = Rejected (TimeoutError (timeout_text
                      (Some (message @ ''. Selector: ''
                         @ locator_toString (locator_of (ElementUtil_elementFinder selector))))
                      (now s' - now s)))
                \<and> expired (js_or (defaultExpectationTimeout s) (Some 10000)) (now s' - now s)"
    using check_trace [of message condition selector s] by blast
  obtain v where "condition (ElementUtil_elementFinder selector) (page s tlast) = Fulfilled v"
    and "\<not> truthy v"
    using a by blast
  then have r: "r = Rejected (TimeoutError (timeout_text
                      (Some (message @ ''. Selector: ''
                         @ locator_toString (locator_of (ElementUtil_elementFinder selector))))
                      (now s' - now s)))"
    and e: "expired (js_or (defaultExpectationTimeout s) (Some 10000)) (now s' - now s)"
    using tr(4) by simp_all
  have "js_or (defaultExpectationTimeout s) (Some 10000) = Some 10000"
    using a by (simp add: js_or_def)
  then have "now s + 10000 \<le> now s'"
    using e tr(2) by (simp add: expired_def)
  then show "\<exists>description s'.
             WaitCondition_check message condition selector s
               = Some (Rejected (TimeoutError description), s')
           \<and> now s + 10000 \<le> now s'"
    using tr(1) r by blast
next
  assume a: "\<not> truthy_num (defaultExpectationTimeout s)
        \<and> (\<forall>t. \<exists>v. conditionFunction (page s t) = Fulfilled v \<and> \<not> truthy v)"
  then have "browser_wait (Fn conditionFunction) (defaultExpectationTimeout s) opt_message s = None"
    unfolding browser_wait_def by (simp add: poll_forever)
  then show "Expectation_condition conditionFunction opt_message s = None"
    by (simp add: Expectation_condition_def ActionUtil_expectExecutedAction_def
        ActionUtil_execute_def expect_def)
qed

theorem check_timeout_fallback_witness:
  "\<not> truthy_num (defaultExpectationTimeout (blank_session (Some 0)))
   \<and> (\<forall>t. Condition_present (ElementUtil_elementFinder (Css ''.row''))
            (page (blank_session (Some 0)) t) = Fulfilled (JBool False))
   \<and> (\<exists>description s'.
         WaitCondition_check ''For element to be present'' Condition_present (Css ''.row'')
            (blank_session (Some 0))
           = Some (Rejected (TimeoutError description), s')
       \<and> now (blank_session (Some 0)) + 10000 \<le> now s')
   \<and> Expectation_condition (Condition_present (ElementUtil_elementFinder (Css ''.row''))) None
        (blank_session (Some 0)) = None"
proof -
  have g: "\<not> truthy_num (defaultExpectationTimeout (blank_session (Some 0)))"
    by (simp add: blank_session_def)
  have h: "\<forall>t. Condition_present (ElementUtil_elementFinder (Css ''.row''))
            (page (blank_session (Some 0)) t) = Fulfilled (JBool False)"
    by (simp add: blank_session_def Condition_present_def holds_on_def)
  then have h': "\<forall>t. \<exists>v. Condition_present (ElementUtil_elementFinder (Css ''.row''))
            (page (blank_session (Some 0)) t) = Fulfilled v \<and> \<not> truthy v"
    by simp
  show ?thesis
    using g h h' check_timeout_fallback [where s = "blank_session (Some 0)"
        and condition = Condition_present and selector = "Css ''.row''"
        and message = "''For element to be present''"
        and conditionFunction = "Condition_present (ElementUtil_elementFinder (Css ''.row''))"
        and opt_message = None]
    by (intro conjI) (assumption | blast)+
qed

section \<open>Claims about the attribute expectations\<close>













section \<open>Claims about count and presentWithText\<close>

text \<open>
  C3: \<open>WaitCondition.count('.row', 3)\<close> on a page that never has three rows, with a
  timeout of two milliseconds. The wait expires, and its error names the expected count
  but not the selector \<open>.row\<close>: \<open>count\<close> passes no selector on to \<open>check\<close>, so the
  text ends with the locator of an undefined selector, and the outcome is the same
  whatever selector \<open>count\<close> is called with.
\<close>

theorem count_error_lacks_selector:
  "WaitCondition_count ''.row'' 3 (blank_session (Some 2))
     = Some (Rejected (TimeoutError
               (''for element'' @ [CHR 0x27] @ ''s count to be '' @ [CHR 0x27] @ ''3'' @ [CHR 0x27]
                @ ''. Selector: By(css selector, undefined)''
                @ [CHR 0x0A] @ ''Wait timed out after 2ms'')),
             (blank_session (Some 2))\<lparr>now := 2, log := [Evaluated 0, Evaluated 1]\<rparr>)
   \<and> (\<forall>css. WaitCondition_count css 3 (blank_session (Some 2))
            = WaitCondition_count ''.row'' 3 (blank_session (Some 2)))"
proof -
  have three: "show_int 3 = ''3''"
    by (simp add: show_int_def show_nat.simps digit_char_def)
  have "show_nat 2 = ''2''"
    by (simp add: show_nat.simps digit_char_def)
  then have two: "show_nat (Suc (Suc 0)) = ''2''"
    by (simp add: numeral_2_eq_2)
  have run: "WaitCondition_count css 3 (blank_session (Some 2))
     = Some (Rejected (TimeoutError
               (''for element'' @ [CHR 0x27] @ ''s count to be '' @ [CHR 0x27] @ ''3'' @ [CHR 0x27]
                @ ''. Selector: By(css selector, undefined)''
                @ [CHR 0x0A] @ ''Wait timed out after 2ms'')),
             (blank_session (Some 2))\<lparr>now := 2, log := [Evaluated 0, Evaluated 1]\<rparr>)" for css
    unfolding WaitCondition_count_def WaitCondition_check_def browser_wait_def Let_def
    apply (subst pollCondition.simps)
    apply (simp add: blank_session_def Condition_count_def round_trip_def expired_def js_or_def)
    apply (subst pollCondition.simps)
    apply (simp add: blank_session_def Condition_count_def round_trip_def expired_def js_or_def
        timeout_text_def quoted_def three two)
    done
  show ?thesis
    by (simp only: run simp_thms)
qed

lemma undefined_text_never_resolves: "resolve (FirstWithText l JUndefined) d = None"
  by simp

text \<open>
  C7: \<open>Expectation.presentWithText\<close> has no parameter for the expected text and calls
  \<open>WaitCondition.presentWithText\<close> with the selector alone. The text compared with is
  \<open>undefined\<close>, which no element's text equals: on every page, whatever its elements
  and their texts, the wait expires with an error about the text \<open>undefined\<close>.
\<close>

theorem presentWithText_expects_undefined:
  "\<exists>elapsed s'.
     Expectation_presentWithText selector s
       = Some (Expect (Rejected (TimeoutError
           (''For element having text undefined to be present. Selector: By(css selector, ''
            @ selector @ '')'' @ [CHR 0x0A] @ ''Wait timed out after '' @ show_nat elapsed
            @ ''ms''))), s')"
proof -
  let ?sel = "Element (FirstWithText (ByCss (Some selector)) JUndefined)"
  have "\<forall>t. now s \<le> t
             \<and> (t = now s \<or> \<not> expired (js_or (defaultExpectationTimeout s) (Some 10000)) (t - now s))
           \<longrightarrow> (\<exists>v. Condition_present (ElementUtil_elementFinder ?sel) (page s t) = Fulfilled v
                     \<and> \<not> truthy v)"
    by (simp add: Condition_present_def holds_on_def)
  from this check_falsy_times_out [where s = s and condition = Condition_present
      and selector = ?sel and message = "''For element having text undefined to be present''"]
  obtain elapsed s' where
    "WaitCondition_check ''For element having text undefined to be present''
        Condition_present ?sel s
      = Some (Rejected (TimeoutError
           (''For element having text undefined to be present'' @ ''. Selector: ''
            @ locator_toString (locator_of (ElementUtil_elementFinder ?sel))
            @ [CHR 0x0A] @ ''Wait timed out after '' @ show_nat elapsed @ ''ms'')), s')"
    by blast
  then have "Expectation_presentWithText selector s
       = Some (Expect (Rejected (TimeoutError
           (''For element having text undefined to be present. Selector: By(css selector, ''
            @ selector @ '')'' @ [CHR 0x0A] @ ''Wait timed out after '' @ show_nat elapsed
            @ ''ms''))), s')"
    by (simp add: Expectation_presentWithText_def WaitCondition_presentWithText_def
        ActionUtil_expectExecutedAction_def ActionUtil_execute_def expect_def)
  then show ?thesis by blast
qed

section \<open>Claims about the expectations that wrap a wait\<close>

text \<open>
  C4: \<open>Expectation.displayed\<close>, \<open>enabled\<close>, \<open>present\<close>, \<open>textEquals\<close> and
  \<open>textContains\<close> are \<open>expect\<close> applied to the run of the \<open>WaitCondition\<close> method of
  the same name on the same arguments; \<open>expect\<close> leaves the session as the wait left it
  and wraps the outcome of the wait, and does not return when the wait does not.
\<close>

theorem expectations_wrap_waits:
  "Expectation_displayed selector s = expect (WaitCondition_displayed selector s)
   \<and> Expectation_enabled selector s = expect (WaitCondition_enabled selector s)
   \<and> Expectation_present selector s = expect (WaitCondition_present selector s)
   \<and> Expectation_textEquals selector t s = expect (WaitCondition_textEquals selector t s)
   \<and> Expectation_textContains selector t s = expect (WaitCondition_textContains selector t s)
   \<and> expect None = None
   \<and> (\<forall>r s'. expect (Some (r, s')) = Some (Expect r, s'))"
  by (simp add: Expectation_displayed_def Expectation_enabled_def Expectation_present_def
      Expectation_textEquals_def Expectation_textContains_def
      ActionUtil_expectExecutedAction_def ActionUtil_execute_def expect_def)

end
